theory Spec2Isabelle
  imports Complex_Main "HOL-Library.AList" "HOL-Library.Char_ord" "HOL-Library.List_Lexorder"
    "HOL-Library.Word"
begin

section \<open>Configuration: the apply delay\<close>

text \<open>
  A setting read from the host is an \<^verbatim>\<open>unknown\<close> JavaScript value. Only whether it is a
  number, and which one, matters to \<^verbatim>\<open>validateDelay\<close>. A JavaScript number is a double:
  NaN, one of the two infinities, or a finite value, which is a rational number. (The
  double \<^verbatim>\<open>-0\<close> is the rational 0: the model does not tell the two zeros apart.)
\<close>

datatype js_number = NaN | PosInfinity | NegInfinity | Finite rat

datatype js_unknown = JsNumber js_number | JsNotANumberType

text \<open>\<^verbatim>\<open>config.get(key, defaultValue)\<close>: the stored value, or the default when there is none.\<close>

definition config_get :: "(string \<rightharpoonup> js_unknown) \<Rightarrow> string \<Rightarrow> js_unknown \<Rightarrow> js_unknown" where
  "config_get settings key defaultValue =
     (case settings key of None \<Rightarrow> defaultValue | Some v \<Rightarrow> v)"

text \<open>\<^verbatim>\<open>Math.round\<close> on a finite number: the nearest integer, a tie going up.\<close>

definition Math_round :: "rat \<Rightarrow> rat" where
  "Math_round x = of_int \<lfloor>x + 1 / 2\<rfloor>"

text \<open>
  \<^verbatim>\<open>validateDelay(value, max)\<close>: the type and NaN test, then \<^verbatim>\<open>value < 0\<close>, then
  \<^verbatim>\<open>value > max\<close>, then \<^verbatim>\<open>Math.round\<close>. Negative infinity is below 0 and positive infinity
  above every \<^verbatim>\<open>max\<close>.
\<close>

fun validateDelay :: "js_unknown \<Rightarrow> rat \<Rightarrow> rat" where
  "validateDelay JsNotANumberType mx = 0"
| "validateDelay (JsNumber NaN) mx = 0"
| "validateDelay (JsNumber NegInfinity) mx = 0"
| "validateDelay (JsNumber PosInfinity) mx = mx"
| "validateDelay (JsNumber (Finite x)) mx =
     (if x < 0 then 0 else if x > mx then mx else Math_round x)"

text \<open>The \<^verbatim>\<open>activeApplyDelay\<close> field of the record \<^verbatim>\<open>getConfiguration()\<close> returns.\<close>

definition getConfiguration_activeApplyDelay :: "(string \<rightharpoonup> js_unknown) \<Rightarrow> rat" where
  "getConfiguration_activeApplyDelay settings =
     validateDelay (config_get settings ''activeApplyDelay'' (JsNumber (Finite 100))) 500"

section \<open>JavaScript objects\<close>

text \<open>
  The values of a colour-customisation object are strings or \<^verbatim>\<open>null\<close>; reading a key that
  is not there gives \<^verbatim>\<open>undefined\<close>, and a key can also hold \<^verbatim>\<open>undefined\<close> explicitly.
  An object is an association list in insertion order, as \<^verbatim>\<open>Object.keys\<close> sees it.
\<close>

datatype jsval = JUndef | JNull | JStr string

type_synonym jsobject = "(string \<times> jsval) list"

text \<open>\<^verbatim>\<open>obj[key]\<close>\<close>

definition obj_get :: "jsobject \<Rightarrow> string \<Rightarrow> jsval" where
  "obj_get obj key = (case map_of obj key of None \<Rightarrow> JUndef | Some v \<Rightarrow> v)"

text \<open>\<^verbatim>\<open>Object.prototype.hasOwnProperty.call(obj, key)\<close>\<close>

definition hasOwnProperty :: "jsobject \<Rightarrow> string \<Rightarrow> bool" where
  "hasOwnProperty obj key = (map_of obj key \<noteq> None)"

text \<open>\<^verbatim>\<open>obj[key] = v\<close>: an existing key keeps its place, a new one goes last.\<close>

definition obj_set :: "jsobject \<Rightarrow> string \<Rightarrow> jsval \<Rightarrow> jsobject" where
  "obj_set obj key v = AList.update key v obj"

text \<open>\<^verbatim>\<open>delete obj[key]\<close>\<close>

definition obj_delete :: "jsobject \<Rightarrow> string \<Rightarrow> jsobject" where
  "obj_delete obj key = AList.delete key obj"

text \<open>\<^verbatim>\<open>{ ...a, ...b }\<close>\<close>

definition spread :: "jsobject \<Rightarrow> jsobject \<Rightarrow> jsobject" where
  "spread a b = fold (\<lambda>(k, v) acc. obj_set acc k v) b a"

text \<open>\<^verbatim>\<open>Object.keys(obj)\<close>\<close>

definition Object_keys :: "jsobject \<Rightarrow> string list" where
  "Object_keys obj = map fst obj"

text \<open>Truthiness, as \<^verbatim>\<open>if (value)\<close> tests it: only a non-empty string passes.\<close>

fun truthy :: "jsval \<Rightarrow> bool" where
  "truthy (JStr s) = (s \<noteq> [])"
| "truthy JNull = False"
| "truthy JUndef = False"

text \<open>\<^verbatim>\<open>v ?? null\<close>\<close>

fun or_null :: "jsval \<Rightarrow> jsval" where
  "or_null JUndef = JNull"
| "or_null v = v"

text \<open>\<^verbatim>\<open>value || {}\<close> on a value that is an object or \<^verbatim>\<open>undefined\<close>\<close>

fun or_empty :: "jsobject option \<Rightarrow> jsobject" where
  "or_empty None = []"
| "or_empty (Some obj) = obj"

section \<open>ThemeManager\<close>

definition AFFECTED_ELEMENTS :: "string list" where
  "AFFECTED_ELEMENTS =
    [''titleBar.activeBackground'',
     ''titleBar.activeForeground'',
     ''titleBar.inactiveBackground'',
     ''titleBar.inactiveForeground'',
     ''activityBar.background'',
     ''activityBar.foreground'',
     ''activityBar.inactiveForeground'',
     ''activityBar.border'',
     ''statusBar.background'',
     ''statusBar.foreground'',
     ''statusBar.border'',
     ''tab.activeBorderTop'',
     ''sideBar.border'',
     ''input.border'',
     ''focusBorder'']"

definition MINIMAL_ELEMENTS :: "string list" where
  "MINIMAL_ELEMENTS =
    [''titleBar.activeBackground'',
     ''titleBar.activeForeground'',
     ''titleBar.inactiveBackground'',
     ''titleBar.inactiveForeground'']"

text \<open>
  The colour arithmetic is the third-party library \<^verbatim>\<open>colord\<close>, which is not part of the
  repository. It is a parameter of the model: a colour type and the methods the palette
  derivation calls on it. Amounts such as \<^verbatim>\<open>0.3\<close> are passed as rationals.
\<close>

record 'c colord_lib =
  colord :: "string \<Rightarrow> 'c"
  isDark :: "'c \<Rightarrow> bool"
  lighten :: "'c \<Rightarrow> rat \<Rightarrow> 'c"
  darken :: "'c \<Rightarrow> rat \<Rightarrow> 'c"
  saturate :: "'c \<Rightarrow> rat \<Rightarrow> 'c"
  desaturate :: "'c \<Rightarrow> rat \<Rightarrow> 'c"
  alpha :: "'c \<Rightarrow> rat \<Rightarrow> 'c"
  toHex :: "'c \<Rightarrow> string"

definition generateColorPalette :: "'c colord_lib \<Rightarrow> string \<Rightarrow> bool \<Rightarrow> jsobject" where
  "generateColorPalette lib baseColorHex minimalMode =
    (let base = colord lib baseColorHex;
         dark = isDark lib base;
         foreground = (if dark then ''#FFFFFF'' else ''#1E1E1E'');
         inactiveForeground =
           (if dark then toHex lib (saturate lib (lighten lib base (3 / 10)) (2 / 10))
            else toHex lib (desaturate lib (darken lib base (3 / 10)) (2 / 10)));
         inactiveBackground =
           (if dark then toHex lib (darken lib base (1 / 10))
            else toHex lib (lighten lib base (1 / 10)));
         border = toHex lib (darken lib base (8 / 100));
         fullPalette =
           [(''titleBar.activeBackground'', JStr baseColorHex),
            (''titleBar.activeForeground'', JStr foreground),
            (''titleBar.inactiveBackground'', JStr inactiveBackground),
            (''titleBar.inactiveForeground'', JStr inactiveForeground),
            (''activityBar.background'', JStr baseColorHex),
            (''activityBar.foreground'', JStr foreground),
            (''activityBar.inactiveForeground'', JStr inactiveForeground),
            (''activityBar.border'', JStr border),
            (''statusBar.background'', JStr baseColorHex),
            (''statusBar.foreground'', JStr foreground),
            (''statusBar.border'', JStr border),
            (''tab.activeBorderTop'', JStr border),
            (''sideBar.border'', JStr border),
            (''input.border'', JStr border),
            (''focusBorder'', JStr (toHex lib (alpha lib base (7 / 10))))]
     in if minimalMode
        then fold (\<lambda>key minimalPalette.
                    let v = obj_get fullPalette key
                    in if truthy v then obj_set minimalPalette key v else minimalPalette)
               MINIMAL_ELEMENTS []
        else fullPalette)"

definition buildAppliedPalette :: "'c colord_lib \<Rightarrow> string \<Rightarrow> bool \<Rightarrow> jsobject" where
  "buildAppliedPalette lib baseColorHex minimalMode =
    (let palette = generateColorPalette lib baseColorHex minimalMode
     in fold (\<lambda>key applied. obj_set applied key (obj_get palette key)) AFFECTED_ELEMENTS [])"

text \<open>
  The state a \<^verbatim>\<open>ThemeManager\<close> works on: its own fields, the two mementos (the keys
  \<^verbatim>\<open>focusmark.theme.originalCustomizations\<close> and \<^verbatim>\<open>focusmark.theme.applied\<close> of the workspace
  state, \<^verbatim>\<open>focusmark.theme.globalOriginalCustomizations\<close> of the global state), the value of
  \<^verbatim>\<open>workbench.colorCustomizations\<close> in each configuration scope as \<^verbatim>\<open>inspect\<close> reports it,
  whether a workspace is open, and the two settings \<^verbatim>\<open>applyTheme\<close> reads. The field
  \<^verbatim>\<open>configUpdates\<close> lists every \<^verbatim>\<open>workbenchConfig.update\<close> call made, oldest first.
  Reads and writes of the host are taken to succeed, and each method runs to its end
  before the next starts.
\<close>

datatype ConfigurationTarget = Global | Workspace | WorkspaceFolder

record theme_manager =
  isThemeApplied :: bool
  lastAppliedColor :: "string option"
  lastAppliedMinimal :: "bool option"
  lastAppliedPalette :: "jsobject option"
  storedCustomizations :: "jsobject option"
  appliedFlag :: "bool option"
  storedGlobalCustomizations :: "jsobject option"
  workspaceValue :: "jsobject option"
  globalValue :: "jsobject option"
  workspaceFolderValue :: "jsobject option"
  hasWorkspace :: bool
  effectiveColor :: string
  fullColorMode :: bool
  configUpdates :: "(ConfigurationTarget \<times> jsobject option) list"

text \<open>\<^verbatim>\<open>workbenchConfig.update('colorCustomizations', value, target)\<close>\<close>

definition workbench_update ::
  "jsobject option \<Rightarrow> ConfigurationTarget \<Rightarrow> theme_manager \<Rightarrow> theme_manager" where
  "workbench_update v target s =
    (case target of
       Global \<Rightarrow> s\<lparr>globalValue := v, configUpdates := configUpdates s @ [(target, v)]\<rparr>
     | Workspace \<Rightarrow> s\<lparr>workspaceValue := v, configUpdates := configUpdates s @ [(target, v)]\<rparr>
     | WorkspaceFolder \<Rightarrow>
         s\<lparr>workspaceFolderValue := v, configUpdates := configUpdates s @ [(target, v)]\<rparr>)"

definition getWorkspaceConfigurationTarget :: "theme_manager \<Rightarrow> ConfigurationTarget option" where
  "getWorkspaceConfigurationTarget s = (if hasWorkspace s then Some Workspace else None)"

definition getConfigurationTarget :: "theme_manager \<Rightarrow> ConfigurationTarget" where
  "getConfigurationTarget s =
    (case getWorkspaceConfigurationTarget s of Some t \<Rightarrow> t | None \<Rightarrow> Global)"

text \<open>
  The object both \<^verbatim>\<open>ensureOriginalCustomizationsCaptured\<close> and
  \<^verbatim>\<open>restoreOriginalCustomizations\<close> read: the workspace value when a workspace is open,
  the global value otherwise, \<^verbatim>\<open>{}\<close> when there is none.
\<close>

definition currentCustomizations :: "theme_manager \<Rightarrow> jsobject" where
  "currentCustomizations s =
    (case getWorkspaceConfigurationTarget s of
       Some _ \<Rightarrow> or_empty (workspaceValue s)
     | None \<Rightarrow> or_empty (globalValue s))"

text \<open>The capture loop shared by the two \<^verbatim>\<open>ensure...Captured\<close> methods.\<close>

definition captureStored :: "jsobject \<Rightarrow> jsobject" where
  "captureStored current =
    fold (\<lambda>key stored.
            if hasOwnProperty current key then obj_set stored key (or_null (obj_get current key))
            else obj_set stored key JNull)
      AFFECTED_ELEMENTS []"

definition ensureOriginalCustomizationsCaptured :: "theme_manager \<Rightarrow> theme_manager" where
  "ensureOriginalCustomizationsCaptured s =
    (if storedCustomizations s \<noteq> None then s
     else s\<lparr>storedCustomizations := Some (captureStored (currentCustomizations s))\<rparr>)"

definition ensureGlobalOriginalCustomizationsCaptured :: "theme_manager \<Rightarrow> theme_manager" where
  "ensureGlobalOriginalCustomizationsCaptured s =
    (if storedGlobalCustomizations s \<noteq> None then s
     else s\<lparr>storedGlobalCustomizations := Some (captureStored (or_empty (globalValue s)))\<rparr>)"

text \<open>
  \<^verbatim>\<open>areCustomizationsEqual\<close>: the keys holding something other than \<^verbatim>\<open>undefined\<close>, sorted,
  are compared position by position, and the values under them with \<^verbatim>\<open>!==\<close>.
\<close>

definition definedKeys :: "jsobject \<Rightarrow> string list" where
  "definedKeys obj = sort (filter (\<lambda>key. obj_get obj key \<noteq> JUndef) (Object_keys obj))"

fun equalAt :: "jsobject \<Rightarrow> jsobject \<Rightarrow> string list \<Rightarrow> string list \<Rightarrow> bool" where
  "equalAt current nxt [] _ = True"
| "equalAt current nxt (key # keys) [] = False"
| "equalAt current nxt (key # keys) (nextKey # nextKeys) =
     (if key \<noteq> nextKey then False
      else if obj_get current key \<noteq> obj_get nxt key then False
      else equalAt current nxt keys nextKeys)"

definition areCustomizationsEqual :: "jsobject \<Rightarrow> jsobject \<Rightarrow> bool" where
  "areCustomizationsEqual current nxt =
    (let currentKeys = definedKeys current; nextKeys = definedKeys nxt
     in if length currentKeys \<noteq> length nextKeys then False
        else equalAt current nxt currentKeys nextKeys)"

text \<open>
  \<^verbatim>\<open>applyColorsToWorkbench\<close>. The three targets are all a \<^verbatim>\<open>ConfigurationTarget\<close> can be,
  so the source's last branch (the merged \<^verbatim>\<open>get\<close>) is never taken.
\<close>

definition customizationsAt :: "ConfigurationTarget \<Rightarrow> theme_manager \<Rightarrow> jsobject" where
  "customizationsAt target s =
    (case target of
       Global \<Rightarrow> or_empty (globalValue s)
     | Workspace \<Rightarrow> or_empty (workspaceValue s)
     | WorkspaceFolder \<Rightarrow> or_empty (workspaceFolderValue s))"

definition applyColorsToWorkbench ::
  "jsobject \<Rightarrow> ConfigurationTarget \<Rightarrow> theme_manager \<Rightarrow> theme_manager" where
  "applyColorsToWorkbench colors target s =
    (let current = customizationsAt target s;
         merged = spread current colors;
         newCustomizations =
           fold (\<lambda>key obj. if obj_get obj key = JUndef then obj_delete obj key else obj)
             (Object_keys merged) merged
     in if areCustomizationsEqual current newCustomizations then s
        else workbench_update (Some newCustomizations) target s)"

definition resetKeys :: jsobject where
  "resetKeys = fold (\<lambda>key obj. obj_set obj key JUndef) AFFECTED_ELEMENTS []"

definition applyTheme :: "'c colord_lib \<Rightarrow> theme_manager \<Rightarrow> theme_manager" where
  "applyTheme lib s =
    (let baseColor = effectiveColor s;
         minimalMode = (\<not> fullColorMode s)
     in if isThemeApplied s \<and> lastAppliedColor s = Some baseColor
           \<and> lastAppliedMinimal s = Some minimalMode
        then s
        else
          let s1 = ensureOriginalCustomizationsCaptured s;
              s2 = ensureGlobalOriginalCustomizationsCaptured s1;
              newColorCustomizations = generateColorPalette lib baseColor minimalMode;
              s3 = s2\<lparr>lastAppliedPalette := Some (buildAppliedPalette lib baseColor minimalMode)\<rparr>;
              s4 = (case getWorkspaceConfigurationTarget s3 of
                      Some workspaceTarget \<Rightarrow>
                        applyColorsToWorkbench (spread resetKeys newColorCustomizations)
                          workspaceTarget s3
                    | None \<Rightarrow> s3);
              s5 = applyColorsToWorkbench (spread resetKeys newColorCustomizations) Global s4
          in s5\<lparr>isThemeApplied := True,
                lastAppliedColor := Some baseColor,
                lastAppliedMinimal := Some minimalMode,
                appliedFlag := Some True\<rparr>)"

text \<open>
  The loop of \<^verbatim>\<open>restoreOriginalCustomizations\<close> over the affected keys, as a function of the
  object read, the snapshot and the applied palette. With a palette recorded, a key whose
  current value differs from the palette's is skipped.
\<close>

definition restoreKey ::
  "jsobject \<Rightarrow> jsobject option \<Rightarrow> jsobject option \<Rightarrow> string \<Rightarrow> jsobject \<Rightarrow> jsobject" where
  "restoreKey current stored appliedPalette key updated =
    (if (case appliedPalette of
           Some palette \<Rightarrow> obj_get current key \<noteq> obj_get palette key
         | None \<Rightarrow> False)
     then updated
     else
       (case stored of
          Some st \<Rightarrow>
            if hasOwnProperty st key then
              (let original = obj_get st key
               in if original = JNull \<or> original = JUndef then obj_delete updated key
                  else obj_set updated key original)
            else obj_delete updated key
        | None \<Rightarrow> obj_delete updated key))"

definition restoredCustomizations ::
  "jsobject \<Rightarrow> jsobject option \<Rightarrow> jsobject option \<Rightarrow> jsobject" where
  "restoredCustomizations current stored appliedPalette =
    fold (restoreKey current stored appliedPalette) AFFECTED_ELEMENTS current"

definition clearStoredCustomizations :: "theme_manager \<Rightarrow> theme_manager" where
  "clearStoredCustomizations s = s\<lparr>storedCustomizations := None, appliedFlag := Some False\<rparr>"

definition restoreOriginalCustomizations ::
  "jsobject option \<Rightarrow> theme_manager \<Rightarrow> theme_manager" where
  "restoreOriginalCustomizations stored s =
    (let updatedCustomizations =
           restoredCustomizations (currentCustomizations s) stored (lastAppliedPalette s);
         target = getConfigurationTarget s
     in clearStoredCustomizations (workbench_update (Some updatedCustomizations) target s))"

definition applyDefaultColors :: "theme_manager \<Rightarrow> theme_manager" where
  "applyDefaultColors s =
    (let target = getConfigurationTarget s;
         current = (if target = Global then or_empty (globalValue s)
                    else or_empty (workspaceValue s));
         updatedCustomizations =
           fold (\<lambda>key obj. obj_set obj key JNull) AFFECTED_ELEMENTS current
     in workbench_update (Some updatedCustomizations) target s)"

text \<open>\<^verbatim>\<open>removeTheme(log, forceDefaultInactive)\<close>; the first argument only chooses what is logged.\<close>

definition removeTheme :: "bool \<Rightarrow> bool \<Rightarrow> theme_manager \<Rightarrow> theme_manager" where
  "removeTheme doLog forceDefaultInactive s =
    (let stored = storedCustomizations s
     in if \<not> isThemeApplied s \<and> stored = None \<and> \<not> forceDefaultInactive then s
        else
          (let s1 = (if forceDefaultInactive
                     then (applyDefaultColors (ensureOriginalCustomizationsCaptured s))
                            \<lparr>appliedFlag := Some False\<rparr>
                     else restoreOriginalCustomizations stored s)
           in s1\<lparr>isThemeApplied := False,
                 lastAppliedColor := None,
                 lastAppliedMinimal := None,
                 lastAppliedPalette := None\<rparr>))"

text \<open>
  \<^verbatim>\<open>ensureCleanStateOnStartup(options)\<close>. The applied flag is read with \<^verbatim>\<open>!get(...)\<close>, so a
  missing flag counts as false.
\<close>

definition ensureCleanStateOnStartup :: "bool \<Rightarrow> bool \<Rightarrow> theme_manager \<Rightarrow> theme_manager" where
  "ensureCleanStateOnStartup preserveTheme forceDefaultInactive s =
    (if appliedFlag s \<noteq> Some True then s
     else if preserveTheme then s\<lparr>isThemeApplied := True\<rparr>
     else if forceDefaultInactive then removeTheme False True s
     else removeTheme False False s)"

section \<open>FocusMarkManager\<close>

text \<open>
  The coordination record as \<^verbatim>\<open>JSON.parse\<close> hands it over. Any field may be missing from the
  text on disk, so each is optional. Timestamps are \<^verbatim>\<open>Date.now()\<close> milliseconds.
\<close>

record CoordinationData =
  activeWindowId :: "string option"
  workspaceId :: "string option"
  timestamp :: "int option"

text \<open>
  \<^verbatim>\<open>JSON.parse\<close> belongs to the host. It is a parameter of the model: a text either fails to
  parse, or parses to a falsy value such as \<^verbatim>\<open>null\<close>, or to a record.
\<close>

datatype json_result = SyntaxError | JsonFalsy | JsonObject CoordinationData

text \<open>
  The text read from the coordination file is a JavaScript string: a sequence of UTF-16
  code units. \<open>fromAscii\<close> writes an ASCII text as such a string.
\<close>

type_synonym js_string = "16 word list"

definition fromAscii :: "string \<Rightarrow> js_string" where
  "fromAscii s = map of_char s"

text \<open>
  \<^verbatim>\<open>fileContent.trim()\<close> strips, at both ends, every code unit that is white space or a
  line terminator of the language: tab, line feed, vertical tab, form feed, carriage
  return, space, the no-break space U+00A0, the other space separators of Unicode
  (U+1680, U+2000 to U+200A, U+202F, U+205F, U+3000), the line and paragraph separators
  U+2028 and U+2029, and the byte-order mark U+FEFF.
\<close>

definition isWhiteSpace :: "16 word \<Rightarrow> bool" where
  "isWhiteSpace c =
    (c \<in> set [0x0009, 0x000A, 0x000B, 0x000C, 0x000D, 0x0020, 0x00A0, 0x1680,
               0x2000, 0x2001, 0x2002, 0x2003, 0x2004, 0x2005, 0x2006, 0x2007,
               0x2008, 0x2009, 0x200A, 0x2028, 0x2029, 0x202F, 0x205F, 0x3000, 0xFEFF])"

definition trim :: "js_string \<Rightarrow> js_string" where
  "trim content = rev (dropWhile isWhiteSpace (rev (dropWhile isWhiteSpace content)))"

text \<open>Truthiness of an optional string: present and not empty.\<close>

fun truthyString :: "string option \<Rightarrow> bool" where
  "truthyString None = False"
| "truthyString (Some text) = (text \<noteq> [])"

datatype title_call = TitleSetActive string | TitleSetInactive | TitleReset

text \<open>
  The manager's fields, the collaborators it drives (the theme manager, and the calls made
  on the title manager and on the status bar, oldest first), the content of the
  coordination file (\<^verbatim>\<open>None\<close> when it does not exist), the host's focus flag and the
  settings it reads. A timer field is true while a timer is pending.
\<close>

record manager =
  windowId :: string
  ownWorkspaceId :: string
  isWindowActive :: bool
  lastActivatedAt :: int
  activeApplyTimer :: bool
  deactivateTimer :: bool
  themeManager :: theme_manager
  titleCalls :: "title_call list"
  statusBarSetActive :: "bool list"
  coordinationFile :: "js_string option"
  focused :: bool
  enabled :: bool
  enableColors :: bool
  keepInactiveWindowColors :: bool
  coordinationScope :: "string option"

definition clearActiveApplyTimer :: "manager \<Rightarrow> manager" where
  "clearActiveApplyTimer m = (if activeApplyTimer m then m\<lparr>activeApplyTimer := False\<rparr> else m)"

definition clearDeactivateTimer :: "manager \<Rightarrow> manager" where
  "clearDeactivateTimer m = (if deactivateTimer m then m\<lparr>deactivateTimer := False\<rparr> else m)"

definition deactivateWindow :: "bool \<Rightarrow> manager \<Rightarrow> manager" where
  "deactivateWindow preserveTheme m =
    (if \<not> isWindowActive m \<and> \<not> isThemeApplied (themeManager m) then m
     else
       (let m1 = clearActiveApplyTimer (m\<lparr>isWindowActive := False\<rparr>);
            forceDefaultInactive = (\<not> keepInactiveWindowColors m1);
            m2 = m1\<lparr>titleCalls := titleCalls m1 @ [TitleSetInactive],
                    statusBarSetActive := statusBarSetActive m1 @ [False]\<rparr>
        in if \<not> enableColors m2
           then m2\<lparr>themeManager := removeTheme False False (themeManager m2)\<rparr>
           else
             (let shouldPreserveTheme = (preserveTheme \<and> \<not> forceDefaultInactive)
              in if \<not> shouldPreserveTheme
                 then m2\<lparr>themeManager :=
                           removeTheme True forceDefaultInactive (themeManager m2)\<rparr>
                 else m2)))"

definition scheduleDeactivation :: "bool \<Rightarrow> manager \<Rightarrow> manager" where
  "scheduleDeactivation preserveTheme m = deactivateWindow preserveTheme (clearDeactivateTimer m)"

text \<open>
  \<^verbatim>\<open>notifyWindowActive\<close>, given the clock reading and the host's \<^verbatim>\<open>JSON\<close> writer: the
  temporary file is renamed over the coordination file.
\<close>

definition notifyWindowActive :: "(CoordinationData \<Rightarrow> js_string) \<Rightarrow> int \<Rightarrow> manager \<Rightarrow> manager" where
  "notifyWindowActive writeJson now m =
    (let m1 = m\<lparr>lastActivatedAt := now\<rparr>;
         data = \<lparr>activeWindowId = Some (windowId m1),
                 workspaceId = Some (ownWorkspaceId m1),
                 timestamp = Some now\<rparr>
     in m1\<lparr>coordinationFile := Some (writeJson data)\<rparr>)"

text \<open>
  \<^verbatim>\<open>this.lastActivatedAt >= data.timestamp\<close>: a comparison with a missing timestamp is false.
\<close>

fun isStale :: "int \<Rightarrow> int option \<Rightarrow> bool" where
  "isStale lastActivated None = False"
| "isStale lastActivated (Some t) = (lastActivated \<ge> t)"

definition handleCoordinationChange :: "(js_string \<Rightarrow> json_result) \<Rightarrow> manager \<Rightarrow> manager" where
  "handleCoordinationChange JSON_parse m =
    (case coordinationFile m of
       None \<Rightarrow> m
     | Some fileContent \<Rightarrow>
         if trim fileContent \<noteq> [] then
           (case JSON_parse fileContent of
              SyntaxError \<Rightarrow> m\<lparr>coordinationFile := None\<rparr>
            | JsonFalsy \<Rightarrow> m
            | JsonObject data \<Rightarrow>
                if \<not> truthyString (activeWindowId data)
                   \<or> activeWindowId data = Some (windowId m) then m
                else if focused m then m
                else if isStale (lastActivatedAt m) (timestamp data) then m
                else if isWindowActive m \<or> isThemeApplied (themeManager m) then
                  (let keepInactive = keepInactiveWindowColors m;
                       scope = (case coordinationScope m of None \<Rightarrow> ''global'' | Some sc \<Rightarrow> sc);
                       sameWorkspace = (truthyString (workspaceId data)
                                        \<and> workspaceId data = Some (ownWorkspaceId m))
                   in if scope = ''workspace'' \<and> \<not> sameWorkspace then m
                      else
                        (let preserveTheme = (keepInactive \<and> sameWorkspace)
                         in scheduleDeactivation preserveTheme m))
                else m)
         else m)"

text \<open>
  The first step of \<^verbatim>\<open>initializeInternal\<close>: the theme manager reconciles what an earlier
  session left behind, under the two options computed from the settings and the focus.
\<close>

definition startupReconciliation :: "manager \<Rightarrow> manager" where
  "startupReconciliation m =
    m\<lparr>themeManager :=
        ensureCleanStateOnStartup
          (enabled m \<and> enableColors m \<and> (focused m \<or> keepInactiveWindowColors m))
          (enabled m \<and> enableColors m \<and> \<not> keepInactiveWindowColors m \<and> \<not> focused m)
          (themeManager m)\<rparr>"


section \<open>Apply sessions\<close>




section \<open>Example inputs\<close>

text \<open>
  Concrete inputs on which the properties below are exercised. \<open>example_colord\<close> stands
  in for the colour library: it keeps a colour as its hex text. \<open>example_edited\<close> is a
  theme manager whose palette is applied and whose title-bar background the user has since
  changed; \<open>example_crashed\<close> is the same state found by a new process, which has lost the
  fields held in memory; \<open>example_fresh\<close> has applied nothing yet;
  \<open>example_crashed_workspace\<close> is a crashed state of a window with a workspace open. \<open>example_manager\<close> is
  an active, unfocused window that last claimed at time 100 and finds a claim by another
  window of the same workspace, made at time 200, in the coordination file.
\<close>

definition example_colord :: "string colord_lib" where
  "example_colord =
    \<lparr>colord = (\<lambda>hex. hex),
     isDark = (\<lambda>c. True),
     lighten = (\<lambda>c amount. c),
     darken = (\<lambda>c amount. c),
     saturate = (\<lambda>c amount. c),
     desaturate = (\<lambda>c amount. c),
     alpha = (\<lambda>c amount. c @ ''b3''),
     toHex = (\<lambda>c. if c = [] then ''#000000'' else c)\<rparr>"

definition example_palette :: jsobject where
  "example_palette =
     [(''titleBar.activeBackground'', JStr ''#1976D2''),
      (''titleBar.activeForeground'', JStr ''#FFFFFF'')]"

definition example_edited :: theme_manager where
  "example_edited =
    \<lparr>isThemeApplied = True,
     lastAppliedColor = Some ''#1976D2'',
     lastAppliedMinimal = Some True,
     lastAppliedPalette = Some example_palette,
     storedCustomizations =
       Some [(''titleBar.activeBackground'', JStr ''#111111''),
             (''titleBar.activeForeground'', JNull)],
     appliedFlag = Some True,
     storedGlobalCustomizations = None,
     workspaceValue = None,
     globalValue =
       Some [(''editor.background'', JStr ''#000000''),
             (''titleBar.activeBackground'', JStr ''#123456''),
             (''titleBar.activeForeground'', JStr ''#FFFFFF'')],
     workspaceFolderValue = None,
     hasWorkspace = False,
     effectiveColor = ''#1976D2'',
     fullColorMode = False,
     configUpdates = []\<rparr>"

definition example_crashed :: theme_manager where
  "example_crashed =
    example_edited\<lparr>isThemeApplied := False,
                   lastAppliedColor := None,
                   lastAppliedMinimal := None,
                   lastAppliedPalette := None\<rparr>"

definition example_fresh :: theme_manager where
  "example_fresh =
    \<lparr>isThemeApplied = False,
     lastAppliedColor = None,
     lastAppliedMinimal = None,
     lastAppliedPalette = None,
     storedCustomizations = None,
     appliedFlag = None,
     storedGlobalCustomizations = None,
     workspaceValue = None,
     globalValue = Some [(''titleBar.activeBackground'', JStr ''#111111'')],
     workspaceFolderValue = None,
     hasWorkspace = False,
     effectiveColor = ''#1976D2'',
     fullColorMode = False,
     configUpdates = []\<rparr>"

definition example_crashed_workspace :: theme_manager where
  "example_crashed_workspace =
    \<lparr>isThemeApplied = False,
     lastAppliedColor = None,
     lastAppliedMinimal = None,
     lastAppliedPalette = None,
     storedCustomizations =
       Some [(''titleBar.activeBackground'', JNull),
             (''titleBar.activeForeground'', JNull),
             (''titleBar.inactiveBackground'', JNull),
             (''titleBar.inactiveForeground'', JNull),
             (''activityBar.background'', JNull),
             (''activityBar.foreground'', JNull),
             (''activityBar.inactiveForeground'', JNull),
             (''activityBar.border'', JNull),
             (''statusBar.background'', JNull),
             (''statusBar.foreground'', JNull),
             (''statusBar.border'', JNull),
             (''tab.activeBorderTop'', JNull),
             (''sideBar.border'', JNull),
             (''input.border'', JNull),
             (''focusBorder'', JNull)],
     appliedFlag = Some True,
     storedGlobalCustomizations =
       Some [(''titleBar.activeBackground'', JStr ''#111111''),
             (''titleBar.activeForeground'', JNull),
             (''titleBar.inactiveBackground'', JNull),
             (''titleBar.inactiveForeground'', JNull),
             (''activityBar.background'', JNull),
             (''activityBar.foreground'', JNull),
             (''activityBar.inactiveForeground'', JNull),
             (''activityBar.border'', JNull),
             (''statusBar.background'', JNull),
             (''statusBar.foreground'', JNull),
             (''statusBar.border'', JNull),
             (''tab.activeBorderTop'', JNull),
             (''sideBar.border'', JNull),
             (''input.border'', JNull),
             (''focusBorder'', JNull)],
     workspaceValue =
       Some [(''titleBar.activeBackground'', JStr ''#1976D2''),
             (''titleBar.activeForeground'', JStr ''#FFFFFF''),
             (''titleBar.inactiveBackground'', JStr ''#1976D2''),
             (''titleBar.inactiveForeground'', JStr ''#1976D2'')],
     globalValue =
       Some [(''titleBar.activeBackground'', JStr ''#1976D2''),
             (''titleBar.activeForeground'', JStr ''#FFFFFF''),
             (''titleBar.inactiveBackground'', JStr ''#1976D2''),
             (''titleBar.inactiveForeground'', JStr ''#1976D2'')],
     workspaceFolderValue = None,
     hasWorkspace = True,
     effectiveColor = ''#1976D2'',
     fullColorMode = False,
     configUpdates = []\<rparr>"

definition example_claim :: CoordinationData where
  "example_claim =
    \<lparr>activeWindowId = Some ''window-2'', workspaceId = Some ''workspace-1'', timestamp = Some 200\<rparr>"

definition example_claim_text :: js_string where
  "example_claim_text = fromAscii
    ''{\"activeWindowId\":\"window-2\",\"workspaceId\":\"workspace-1\",\"timestamp\":200}''"

text \<open>A parser that reads the one claim text above and rejects every other text.\<close>

definition example_parse :: "js_string \<Rightarrow> json_result" where
  "example_parse content =
    (if content = example_claim_text then JsonObject example_claim else SyntaxError)"

definition example_manager :: manager where
  "example_manager =
    \<lparr>windowId = ''window-1'',
     ownWorkspaceId = ''workspace-1'',
     isWindowActive = True,
     lastActivatedAt = 100,
     activeApplyTimer = False,
     deactivateTimer = False,
     themeManager = example_edited,
     titleCalls = [],
     statusBarSetActive = [],
     coordinationFile = Some example_claim_text,
     focused = False,
     enabled = True,
     enableColors = True,
     keepInactiveWindowColors = True,
     coordinationScope = Some ''global''\<rparr>"

lemma example_parse_claim: "example_parse example_claim_text = JsonObject example_claim"
  by (simp add: example_parse_def)

lemma example_claim_text_not_blank: "trim example_claim_text \<noteq> []"
  by (simp add: example_claim_text_def fromAscii_def trim_def isWhiteSpace_def)

lemma example_manager_fields:
  "coordinationFile example_manager = Some example_claim_text"
  "windowId example_manager = ''window-1''"
  "ownWorkspaceId example_manager = ''workspace-1''"
  "focused example_manager = False"
  "lastActivatedAt example_manager = 100"
  "isWindowActive example_manager = True"
  "keepInactiveWindowColors example_manager = True"
  "enableColors example_manager = True"
  "coordinationScope example_manager = Some ''global''"
  "themeManager example_manager = example_edited"
  "titleCalls example_manager = []"
  "statusBarSetActive example_manager = []"
  by (simp_all add: example_manager_def)

lemma example_claim_fields:
  "activeWindowId example_claim = Some ''window-2''"
  "workspaceId example_claim = Some ''workspace-1''"
  "timestamp example_claim = Some 200"
  by (simp_all add: example_claim_def)

lemma AFFECTED_simp:
  "fold f AFFECTED_ELEMENTS x =
    f ''focusBorder'' (f ''input.border'' (f ''sideBar.border'' (f ''tab.activeBorderTop''
    (f ''statusBar.border'' (f ''statusBar.foreground'' (f ''statusBar.background''
    (f ''activityBar.border'' (f ''activityBar.inactiveForeground'' (f ''activityBar.foreground''
    (f ''activityBar.background'' (f ''titleBar.inactiveForeground''
    (f ''titleBar.inactiveBackground'' (f ''titleBar.activeForeground''
    (f ''titleBar.activeBackground'' x))))))))))))))"
  by (simp add: AFFECTED_ELEMENTS_def)

lemma example_restored:
  "restoredCustomizations (currentCustomizations example_edited)
      (storedCustomizations example_edited) (lastAppliedPalette example_edited) =
    [(''editor.background'', JStr ''#000000''),
     (''titleBar.activeBackground'', JStr ''#123456'')]"
  by (simp add: restoredCustomizations_def AFFECTED_simp restoreKey_def example_edited_def
      example_palette_def currentCustomizations_def getWorkspaceConfigurationTarget_def
      obj_get_def obj_delete_def obj_set_def hasOwnProperty_def)

section \<open>Facts about objects\<close>

lemma map_of_obj_set: "map_of (obj_set obj k v) = (map_of obj)(k \<mapsto> v)"
  by (simp add: obj_set_def update_conv')

lemma map_of_obj_delete: "map_of (obj_delete obj k) = (map_of obj)(k := None)"
  by (simp add: obj_delete_def delete_conv')

lemma obj_get_obj_set: "obj_get (obj_set obj key v) k = (if k = key then v else obj_get obj k)"
  by (simp add: obj_get_def map_of_obj_set)

lemma obj_get_obj_delete:
  "obj_get (obj_delete obj key) k = (if k = key then JUndef else obj_get obj k)"
  by (simp add: obj_get_def map_of_obj_delete)

lemma distinct_obj_set: "distinct (Object_keys obj) \<Longrightarrow> distinct (Object_keys (obj_set obj k v))"
  by (simp add: Object_keys_def obj_set_def distinct_update)

lemma distinct_obj_delete: "distinct (Object_keys obj) \<Longrightarrow> distinct (Object_keys (obj_delete obj k))"
  by (simp add: Object_keys_def obj_delete_def distinct_delete)

lemma distinct_spread: "distinct (Object_keys a) \<Longrightarrow> distinct (Object_keys (spread a b))"
  unfolding spread_def
  by (induction b arbitrary: a) (auto simp add: distinct_obj_set)

lemma distinct_AFFECTED: "distinct AFFECTED_ELEMENTS"
  by (simp add: AFFECTED_ELEMENTS_def)

section \<open>Restore\<close>

lemma restoreKey_other:
  "k \<noteq> key \<Longrightarrow> map_of (restoreKey current stored palette key updated) k = map_of updated k"
  by (simp add: restoreKey_def map_of_obj_set map_of_obj_delete Let_def split: option.splits)

lemma restoreKey_same:
  "map_of (restoreKey current stored palette key updated) key =
     (if (case palette of Some p \<Rightarrow> obj_get current key \<noteq> obj_get p key | None \<Rightarrow> False)
      then map_of updated key
      else (case stored of
              None \<Rightarrow> None
            | Some st \<Rightarrow> (case obj_get st key of JStr v \<Rightarrow> Some (JStr v) | _ \<Rightarrow> None)))"
  by (auto simp add: restoreKey_def map_of_obj_set map_of_obj_delete
      Let_def hasOwnProperty_def obj_get_def split: option.splits jsval.splits)

lemma fold_restoreKey_notin:
  "k \<notin> set keys \<Longrightarrow>
     map_of (fold (restoreKey current stored palette) keys updated) k = map_of updated k"
  by (induction keys arbitrary: updated) (simp_all add: restoreKey_other)

lemma fold_restoreKey_in:
  "distinct keys \<Longrightarrow> k \<in> set keys \<Longrightarrow>
     map_of (fold (restoreKey current stored palette) keys updated) k =
       (if (case palette of Some p \<Rightarrow> obj_get current k \<noteq> obj_get p k | None \<Rightarrow> False)
        then map_of updated k
        else (case stored of
                None \<Rightarrow> None
              | Some st \<Rightarrow> (case obj_get st k of JStr v \<Rightarrow> Some (JStr v) | _ \<Rightarrow> None)))"
proof (induction keys arbitrary: updated)
  case Nil
  then show ?case by simp
next
  case (Cons a keys)
  show ?case
  proof (cases "a = k")
    case True
    with Cons.prems have "k \<notin> set keys" by simp
    then show ?thesis using True by (simp add: fold_restoreKey_notin restoreKey_same)
  next
    case False
    with Cons.prems have "distinct keys" "k \<in> set keys" by auto
    from Cons.IH [OF this] False show ?thesis by (simp add: restoreKey_other)
  qed
qed

lemma currentCustomizations_after_restore:
  "currentCustomizations (restoreOriginalCustomizations stored s) =
     restoredCustomizations (currentCustomizations s) stored (lastAppliedPalette s)"
  by (simp add: restoreOriginalCustomizations_def currentCustomizations_def
      clearStoredCustomizations_def workbench_update_def getConfigurationTarget_def
      getWorkspaceConfigurationTarget_def Let_def)

text \<open>
  C1. Restore preserves concurrent edits. Let \<open>P\<close> be the applied palette on record when
  \<^verbatim>\<open>restoreOriginalCustomizations\<close> runs. For every affected key: if the document's current
  value differs from \<open>P\<close>'s value for the key, the key is left as it is; if it equals it,
  the key takes its snapshot value, and is removed when the snapshot recorded it as absent
  (\<^verbatim>\<open>null\<close>) or when there is no snapshot. Keys that are not affected keep their entries.
  So a key an external actor set to a value other than \<open>P\<close>'s still has it afterwards.
\<close>

theorem C1_restore_preserves_concurrent_edits:
  fixes s :: theme_manager and stored :: "jsobject option"
  assumes palette: "lastAppliedPalette s = Some P"
  shows "(\<forall>k \<in> set AFFECTED_ELEMENTS.
            (obj_get (currentCustomizations s) k \<noteq> obj_get P k \<longrightarrow>
               map_of (currentCustomizations (restoreOriginalCustomizations stored s)) k
                 = map_of (currentCustomizations s) k) \<and>
            (obj_get (currentCustomizations s) k = obj_get P k \<longrightarrow>
               map_of (currentCustomizations (restoreOriginalCustomizations stored s)) k =
                 (case stored of
                    None \<Rightarrow> None
                  | Some st \<Rightarrow> (case obj_get st k of JStr v \<Rightarrow> Some (JStr v) | _ \<Rightarrow> None))))
         \<and> (\<forall>k. k \<notin> set AFFECTED_ELEMENTS \<longrightarrow>
               map_of (currentCustomizations (restoreOriginalCustomizations stored s)) k
                 = map_of (currentCustomizations s) k)"
  unfolding currentCustomizations_after_restore restoredCustomizations_def palette
  using fold_restoreKey_in [OF distinct_AFFECTED, of _ "currentCustomizations s" stored "Some P"
      "currentCustomizations s"]
  by (auto simp add: fold_restoreKey_notin)


theorem C1_witness:
  "lastAppliedPalette example_edited = Some example_palette
   \<and> map_of (currentCustomizations
        (restoreOriginalCustomizations (storedCustomizations example_edited) example_edited))
        ''titleBar.activeBackground'' = Some (JStr ''#123456'')
   \<and> map_of (currentCustomizations
        (restoreOriginalCustomizations (storedCustomizations example_edited) example_edited))
        ''titleBar.activeForeground'' = None"
proof -
  have p: "lastAppliedPalette example_edited = Some example_palette"
    by (simp add: example_edited_def)
  have cur: "currentCustomizations example_edited =
       [(''editor.background'', JStr ''#000000''),
        (''titleBar.activeBackground'', JStr ''#123456''),
        (''titleBar.activeForeground'', JStr ''#FFFFFF'')]"
    by (simp add: example_edited_def currentCustomizations_def getWorkspaceConfigurationTarget_def)
  have k1: "''titleBar.activeBackground'' \<in> set AFFECTED_ELEMENTS"
    and k2: "''titleBar.activeForeground'' \<in> set AFFECTED_ELEMENTS"
    by (simp_all add: AFFECTED_ELEMENTS_def)
  have st: "storedCustomizations example_edited =
       Some [(''titleBar.activeBackground'', JStr ''#111111''),
             (''titleBar.activeForeground'', JNull)]"
    by (simp add: example_edited_def)
  note main = C1_restore_preserves_concurrent_edits [OF p, of "storedCustomizations example_edited",
      THEN conjunct1]
  from main [THEN bspec, OF k1] have "map_of (currentCustomizations
        (restoreOriginalCustomizations (storedCustomizations example_edited) example_edited))
        ''titleBar.activeBackground'' = Some (JStr ''#123456'')"
    by (simp add: cur example_palette_def obj_get_def)
  moreover from main [THEN bspec, OF k2] have "map_of (currentCustomizations
        (restoreOriginalCustomizations (storedCustomizations example_edited) example_edited))
        ''titleBar.activeForeground'' = None"
    by (simp add: cur st example_palette_def obj_get_def)
  ultimately show ?thesis using p by simp
qed

section \<open>Equality of customisations and idempotent apply\<close>

lemma cleanup_get:
  "obj_get (fold (\<lambda>key obj. if obj_get obj key = JUndef then obj_delete obj key else obj) keys obj) k
     = obj_get obj k"
  by (induction keys arbitrary: obj) (simp_all add: obj_get_obj_delete)

lemma cleanup_distinct:
  "distinct (Object_keys obj) \<Longrightarrow>
   distinct (Object_keys
     (fold (\<lambda>key obj. if obj_get obj key = JUndef then obj_delete obj key else obj) keys obj))"
  by (induction keys arbitrary: obj) (simp_all add: distinct_obj_delete)

lemma set_definedKeys: "set (definedKeys obj) = {k. obj_get obj k \<noteq> JUndef}"
proof -
  have "obj_get obj k \<noteq> JUndef \<Longrightarrow> k \<in> fst ` set obj" for k
    by (auto simp add: obj_get_def split: option.splits dest: map_of_SomeD intro: rev_image_eqI)
  then show ?thesis by (auto simp add: definedKeys_def Object_keys_def)
qed

lemma definedKeys_eq:
  assumes "distinct (Object_keys a)" and "distinct (Object_keys b)"
    and "\<forall>k. obj_get a k = obj_get b k"
  shows "definedKeys a = definedKeys b"
proof (rule sorted_distinct_set_unique)
  show "sorted (definedKeys a)" "sorted (definedKeys b)" by (simp_all add: definedKeys_def)
  show "distinct (definedKeys a)" using assms(1) by (simp add: definedKeys_def)
  show "distinct (definedKeys b)" using assms(2) by (simp add: definedKeys_def)
  show "set (definedKeys a) = set (definedKeys b)" using assms(3) by (simp add: set_definedKeys)
qed

lemma equalAt_same: "\<forall>k. obj_get a k = obj_get b k \<Longrightarrow> equalAt a b keys keys"
  by (induction keys) simp_all

lemma areCustomizationsEqual_complete:
  assumes "distinct (Object_keys a)" and "distinct (Object_keys b)"
    and "\<forall>k. obj_get a k = obj_get b k"
  shows "areCustomizationsEqual a b"
  using definedKeys_eq [OF assms] equalAt_same [OF assms(3)]
  by (simp add: areCustomizationsEqual_def Let_def)

lemma applyTheme_idem: "applyTheme lib (applyTheme lib s) = applyTheme lib s"
proof -
  have cfg: "effectiveColor (applyColorsToWorkbench c t x) = effectiveColor x"
       "fullColorMode (applyColorsToWorkbench c t x) = fullColorMode x" for c t x
    by (simp_all add: applyColorsToWorkbench_def workbench_update_def Let_def
        split: ConfigurationTarget.splits)
  have cfg1: "effectiveColor (ensureOriginalCustomizationsCaptured x) = effectiveColor x"
       "fullColorMode (ensureOriginalCustomizationsCaptured x) = fullColorMode x"
       "effectiveColor (ensureGlobalOriginalCustomizationsCaptured x) = effectiveColor x"
       "fullColorMode (ensureGlobalOriginalCustomizationsCaptured x) = fullColorMode x" for x
    by (simp_all add: ensureOriginalCustomizationsCaptured_def
        ensureGlobalOriginalCustomizationsCaptured_def)
  let ?s' = "applyTheme lib s"
  have "isThemeApplied ?s' \<and> lastAppliedColor ?s' = Some (effectiveColor ?s')
        \<and> lastAppliedMinimal ?s' = Some (\<not> fullColorMode ?s')"
    by (simp add: applyTheme_def Let_def cfg cfg1 split: option.splits)
  then show ?thesis by (subst (1) applyTheme_def) (simp add: Let_def)
qed

text \<open>
  C6. Idempotent apply. A second \<^verbatim>\<open>applyTheme\<close> right after the first, the base colour and
  the mode unchanged, returns at once: the state is the same, and so is the list of writes
  to the configuration document. And \<^verbatim>\<open>applyColorsToWorkbench\<close> makes no write whenever the
  colours merged over the current customisations read the same as the current ones under
  every key (a key holding \<^verbatim>\<open>undefined\<close> reads like a missing one), the current object
  having each key once.
\<close>

theorem C6_idempotent_apply:
  "applyTheme lib (applyTheme lib s) = applyTheme lib s
   \<and> configUpdates (applyTheme lib (applyTheme lib s)) = configUpdates (applyTheme lib s)
   \<and> (distinct (Object_keys (customizationsAt target s))
        \<and> (\<forall>k. obj_get (spread (customizationsAt target s) colors) k
                  = obj_get (customizationsAt target s) k)
      \<longrightarrow> applyColorsToWorkbench colors target s = s)"
proof -
  let ?cur = "customizationsAt target s"
  let ?new = "fold (\<lambda>key obj. if obj_get obj key = JUndef then obj_delete obj key else obj)
                (Object_keys (spread ?cur colors)) (spread ?cur colors)"
  have skip: "applyColorsToWorkbench colors target s = s"
    if d: "distinct (Object_keys ?cur)"
      and e: "\<forall>k. obj_get (spread ?cur colors) k = obj_get ?cur k"
  proof -
    have "distinct (Object_keys ?new)" using d by (simp add: cleanup_distinct distinct_spread)
    moreover have "\<forall>k. obj_get ?cur k = obj_get ?new k" using e by (simp add: cleanup_get)
    ultimately have "areCustomizationsEqual ?cur ?new" using d
      by (simp add: areCustomizationsEqual_complete)
    then show ?thesis by (simp add: applyColorsToWorkbench_def Let_def)
  qed
  show ?thesis using skip by (simp add: applyTheme_idem)
qed



theorem C6_witness:
  "distinct (Object_keys (customizationsAt Global example_edited))
   \<and> (\<forall>k. obj_get (spread (customizationsAt Global example_edited)
                 [(''titleBar.activeForeground'', JStr ''#FFFFFF''), (''focusBorder'', JUndef)]) k
            = obj_get (customizationsAt Global example_edited) k)
   \<and> applyColorsToWorkbench
        [(''titleBar.activeForeground'', JStr ''#FFFFFF''), (''focusBorder'', JUndef)]
        Global example_edited = example_edited
   \<and> applyTheme example_colord (applyTheme example_colord example_edited)
        = applyTheme example_colord example_edited"
proof -
  have cur: "customizationsAt Global example_edited =
       [(''editor.background'', JStr ''#000000''),
        (''titleBar.activeBackground'', JStr ''#123456''),
        (''titleBar.activeForeground'', JStr ''#FFFFFF'')]"
    by (simp add: example_edited_def customizationsAt_def)
  have d: "distinct (Object_keys (customizationsAt Global example_edited))"
    by (simp add: cur Object_keys_def)
  have e: "\<forall>k. obj_get (spread (customizationsAt Global example_edited)
                 [(''titleBar.activeForeground'', JStr ''#FFFFFF''), (''focusBorder'', JUndef)]) k
            = obj_get (customizationsAt Global example_edited) k"
    by (simp add: cur spread_def obj_get_def obj_set_def)
  from C6_idempotent_apply [of example_colord example_edited Global
      "[(''titleBar.activeForeground'', JStr ''#FFFFFF''), (''focusBorder'', JUndef)]"] d e
  show ?thesis by simp
qed

section \<open>Palette derivation\<close>

text \<open>
  C7. The palette is a function of the base colour and the mode (and of the colour
  library, whose hex output is never empty). For \<^verbatim>\<open>#1976D2\<close> in minimal mode it has exactly
  the four title-bar keys, so no status-bar or side-bar key. For \<^verbatim>\<open>#1976D2\<close> in full mode
  its keys are the fifteen affected elements, and \<^verbatim>\<open>focusBorder\<close> holds the hex form of the
  base colour at alpha 0.7.
\<close>

theorem C7_palette_scenarios:
  assumes hex: "\<And>c. toHex lib c \<noteq> []"
  shows "Object_keys (generateColorPalette lib ''#1976D2'' True) =
           [''titleBar.activeBackground'', ''titleBar.activeForeground'',
            ''titleBar.inactiveBackground'', ''titleBar.inactiveForeground'']
         \<and> Object_keys (generateColorPalette lib ''#1976D2'' False) = AFFECTED_ELEMENTS
         \<and> length (Object_keys (generateColorPalette lib ''#1976D2'' False)) = 15
         \<and> obj_get (generateColorPalette lib ''#1976D2'' False) ''focusBorder'' =
             JStr (toHex lib (alpha lib (colord lib ''#1976D2'') (7 / 10)))"
proof -
  have "Object_keys (generateColorPalette lib ''#1976D2'' True) =
           [''titleBar.activeBackground'', ''titleBar.activeForeground'',
            ''titleBar.inactiveBackground'', ''titleBar.inactiveForeground'']"
    by (simp add: generateColorPalette_def Let_def MINIMAL_ELEMENTS_def Object_keys_def
        obj_get_def obj_set_def hex)
  moreover have "Object_keys (generateColorPalette lib ''#1976D2'' False) = AFFECTED_ELEMENTS"
    by (simp add: generateColorPalette_def Let_def AFFECTED_ELEMENTS_def Object_keys_def)
  moreover have "obj_get (generateColorPalette lib ''#1976D2'' False) ''focusBorder'' =
             JStr (toHex lib (alpha lib (colord lib ''#1976D2'') (7 / 10)))"
    by (simp add: generateColorPalette_def Let_def obj_get_def)
  ultimately show ?thesis by (simp add: AFFECTED_ELEMENTS_def)
qed

theorem C7_witness:
  "(\<forall>c. toHex example_colord c \<noteq> [])
   \<and> Object_keys (generateColorPalette example_colord ''#1976D2'' True) =
           [''titleBar.activeBackground'', ''titleBar.activeForeground'',
            ''titleBar.inactiveBackground'', ''titleBar.inactiveForeground'']
   \<and> obj_get (generateColorPalette example_colord ''#1976D2'' False) ''focusBorder'' =
        JStr ''#1976D2b3''"
proof -
  have h: "toHex example_colord c \<noteq> []" for c by (simp add: example_colord_def)
  from C7_palette_scenarios [of example_colord, OF h] h show ?thesis
    by (simp add: example_colord_def)
qed

section \<open>Snapshots and startup\<close>















lemma fold_set_null:
  "obj_get (fold (\<lambda>key obj. obj_set obj key JNull) keys obj) k =
     (if k \<in> set keys then JNull else obj_get obj k)"
  by (induction keys arbitrary: obj) (auto simp add: obj_get_obj_set)

lemma currentCustomizations_applyDefaultColors:
  "currentCustomizations (applyDefaultColors s) =
     fold (\<lambda>key obj. obj_set obj key JNull) AFFECTED_ELEMENTS (currentCustomizations s)"
  by (simp add: applyDefaultColors_def currentCustomizations_def workbench_update_def
      getConfigurationTarget_def getWorkspaceConfigurationTarget_def Let_def)

lemma currentCustomizations_ensure:
  "currentCustomizations (ensureOriginalCustomizationsCaptured s) = currentCustomizations s"
  by (simp add: ensureOriginalCustomizationsCaptured_def currentCustomizations_def
      getWorkspaceConfigurationTarget_def)

lemma currentCustomizations_fields:
  "currentCustomizations (s\<lparr>appliedFlag := a\<rparr>) = currentCustomizations s"
  "currentCustomizations (s\<lparr>isThemeApplied := b\<rparr>) = currentCustomizations s"
  "currentCustomizations (s\<lparr>lastAppliedColor := c\<rparr>) = currentCustomizations s"
  "currentCustomizations (s\<lparr>lastAppliedMinimal := d\<rparr>) = currentCustomizations s"
  "currentCustomizations (s\<lparr>lastAppliedPalette := e\<rparr>) = currentCustomizations s"
  by (simp_all add: currentCustomizations_def getWorkspaceConfigurationTarget_def)

lemma forced_removal:
  "currentCustomizations (removeTheme doLog True s) =
     fold (\<lambda>key obj. obj_set obj key JNull) AFFECTED_ELEMENTS (currentCustomizations s)"
  by (simp add: removeTheme_def Let_def currentCustomizations_fields
      currentCustomizations_applyDefaultColors currentCustomizations_ensure)

lemma forced_removal_flags:
  "\<not> isThemeApplied (removeTheme doLog True s)"
  "lastAppliedPalette (removeTheme doLog True s) = None"
  "appliedFlag (removeTheme doLog True s) = Some False"
  by (simp_all add: removeTheme_def Let_def applyDefaultColors_def workbench_update_def
      split: ConfigurationTarget.splits)

lemma forced_removal_other_scopes:
  "hasWorkspace s \<Longrightarrow> globalValue (removeTheme doLog True s) = globalValue s"
  "workspaceFolderValue (removeTheme doLog True s) = workspaceFolderValue s"
  by (simp_all add: removeTheme_def Let_def applyDefaultColors_def workbench_update_def
      ensureOriginalCustomizationsCaptured_def getConfigurationTarget_def
      getWorkspaceConfigurationTarget_def)

text \<open>
  \<open>example_crashed_workspace\<close> is what \<^verbatim>\<open>applyTheme\<close> leaves behind in a window with a
  workspace open, once the process is gone: the fields held in memory are back at their
  initial values, the mementos and both documents are as they were written.
\<close>

lemma example_crashed_workspace_reached:
  "(applyTheme example_colord (example_fresh\<lparr>hasWorkspace := True\<rparr>))
     \<lparr>isThemeApplied := False,
      lastAppliedColor := None,
      lastAppliedMinimal := None,
      lastAppliedPalette := None,
      configUpdates := []\<rparr>
   = example_crashed_workspace"
  by code_simp

text \<open>
  C8, as amended. Crash-recovery reconciliation. A window starts with the applied flag
  still set by an earlier session; it is not focused, the keep-inactive flag is off, and
  the extension and its colours are enabled. Startup reconciliation then runs
  \<^verbatim>\<open>removeTheme\<close> with \<^verbatim>\<open>forceDefaultInactive\<close>: in the document of the active scope (the
  workspace's when one is open, the global one otherwise) every affected key holds an
  explicit \<^verbatim>\<open>null\<close>, so none carries a colour, and the other keys read as before; no
  theme is applied, no palette is on record, and the applied flag is false. No interaction
  is involved. When a workspace is open the global document is not written: whatever
  the earlier session left under its affected keys stays there.
\<close>

theorem C8_crash_recovery:
  assumes "appliedFlag (themeManager m) = Some True"
    and "\<not> focused m" and "\<not> keepInactiveWindowColors m"
    and "enabled m" and "enableColors m"
  shows "themeManager (startupReconciliation m) = removeTheme False True (themeManager m)
     \<and> (\<forall>k \<in> set AFFECTED_ELEMENTS.
          obj_get (currentCustomizations (themeManager (startupReconciliation m))) k = JNull)
     \<and> (\<forall>k. k \<notin> set AFFECTED_ELEMENTS \<longrightarrow>
          obj_get (currentCustomizations (themeManager (startupReconciliation m))) k
            = obj_get (currentCustomizations (themeManager m)) k)
     \<and> \<not> isThemeApplied (themeManager (startupReconciliation m))
     \<and> lastAppliedPalette (themeManager (startupReconciliation m)) = None
     \<and> appliedFlag (themeManager (startupReconciliation m)) = Some False
     \<and> (hasWorkspace (themeManager m) \<longrightarrow>
          globalValue (themeManager (startupReconciliation m)) = globalValue (themeManager m))"
proof -
  have "themeManager (startupReconciliation m) = removeTheme False True (themeManager m)"
    using assms by (simp add: startupReconciliation_def ensureCleanStateOnStartup_def)
  then show ?thesis
    by (simp add: forced_removal forced_removal_flags fold_set_null forced_removal_other_scopes)
qed

theorem C8_witness:
  "appliedFlag (themeManager
      (example_manager\<lparr>keepInactiveWindowColors := False, themeManager := example_crashed\<rparr>))
     = Some True
   \<and> \<not> focused (example_manager\<lparr>keepInactiveWindowColors := False, themeManager := example_crashed\<rparr>)
   \<and> obj_get (currentCustomizations (themeManager (startupReconciliation
        (example_manager\<lparr>keepInactiveWindowColors := False, themeManager := example_crashed\<rparr>))))
        ''titleBar.activeBackground'' = JNull
   \<and> obj_get (currentCustomizations (themeManager (startupReconciliation
        (example_manager\<lparr>keepInactiveWindowColors := False, themeManager := example_crashed\<rparr>))))
        ''editor.background'' = JStr ''#000000''
   \<and> hasWorkspace (themeManager
        (example_manager\<lparr>keepInactiveWindowColors := False,
                         themeManager := example_crashed_workspace\<rparr>))
   \<and> obj_get (currentCustomizations (themeManager (startupReconciliation
        (example_manager\<lparr>keepInactiveWindowColors := False,
                         themeManager := example_crashed_workspace\<rparr>))))
        ''titleBar.activeBackground'' = JNull
   \<and> globalValue (themeManager (startupReconciliation
        (example_manager\<lparr>keepInactiveWindowColors := False,
                         themeManager := example_crashed_workspace\<rparr>)))
       = globalValue example_crashed_workspace"
proof -
  let ?m = "example_manager\<lparr>keepInactiveWindowColors := False, themeManager := example_crashed\<rparr>"
  let ?w = "example_manager\<lparr>keepInactiveWindowColors := False,
                            themeManager := example_crashed_workspace\<rparr>"
  have h: "appliedFlag (themeManager ?m) = Some True" "\<not> focused ?m"
    "\<not> keepInactiveWindowColors ?m" "enabled ?m" "enableColors ?m"
    by (simp_all add: example_manager_def example_crashed_def example_edited_def)
  have hw: "appliedFlag (themeManager ?w) = Some True" "\<not> focused ?w"
    "\<not> keepInactiveWindowColors ?w" "enabled ?w" "enableColors ?w"
    by (simp_all add: example_manager_def example_crashed_workspace_def)
  have ws: "hasWorkspace (themeManager ?w)" by (simp add: example_crashed_workspace_def)
  have k: "''titleBar.activeBackground'' \<in> set AFFECTED_ELEMENTS"
    "''editor.background'' \<notin> set AFFECTED_ELEMENTS"
    by (simp_all add: AFFECTED_ELEMENTS_def)
  have cur: "obj_get (currentCustomizations (themeManager ?m)) ''editor.background'' = JStr ''#000000''"
    by (simp add: example_crashed_def example_edited_def currentCustomizations_def
        getWorkspaceConfigurationTarget_def obj_get_def)
  note main = C8_crash_recovery [OF h]
  note mainw = C8_crash_recovery [OF hw]
  from main [THEN conjunct2, THEN conjunct1, THEN bspec, OF k(1)]
  have one: "obj_get (currentCustomizations (themeManager (startupReconciliation ?m)))
        ''titleBar.activeBackground'' = JNull" .
  from main [THEN conjunct2, THEN conjunct2, THEN conjunct1, THEN spec, THEN mp, OF k(2)] cur
  have two: "obj_get (currentCustomizations (themeManager (startupReconciliation ?m)))
        ''editor.background'' = JStr ''#000000''" by simp
  from mainw [THEN conjunct2, THEN conjunct1, THEN bspec, OF k(1)]
  have three: "obj_get (currentCustomizations (themeManager (startupReconciliation ?w)))
        ''titleBar.activeBackground'' = JNull" .
  from mainw [THEN conjunct2, THEN conjunct2, THEN conjunct2, THEN conjunct2, THEN conjunct2,
      THEN conjunct2, THEN mp, OF ws]
  have four: "globalValue (themeManager (startupReconciliation ?w))
       = globalValue example_crashed_workspace" by simp
  from one two three four ws h(1,2) show ?thesis by simp
qed

text \<open>
  Of the global document the property does not hold. In the window with a workspace open
  the palette was written to the global document as well; after startup reconciliation
  the workspace document holds the nulls, and the global one still gives the title bar
  its colour.
\<close>

theorem C8_counterexample:
  "appliedFlag (themeManager
      (example_manager\<lparr>keepInactiveWindowColors := False,
                       themeManager := example_crashed_workspace\<rparr>)) = Some True
   \<and> \<not> focused (example_manager\<lparr>keepInactiveWindowColors := False,
                                themeManager := example_crashed_workspace\<rparr>)
   \<and> \<not> keepInactiveWindowColors (example_manager\<lparr>keepInactiveWindowColors := False,
                                themeManager := example_crashed_workspace\<rparr>)
   \<and> enabled (example_manager\<lparr>keepInactiveWindowColors := False,
                              themeManager := example_crashed_workspace\<rparr>)
   \<and> enableColors (example_manager\<lparr>keepInactiveWindowColors := False,
                                   themeManager := example_crashed_workspace\<rparr>)
   \<and> ''titleBar.activeBackground'' \<in> set AFFECTED_ELEMENTS
   \<and> obj_get (customizationsAt Global (themeManager (startupReconciliation
        (example_manager\<lparr>keepInactiveWindowColors := False,
                         themeManager := example_crashed_workspace\<rparr>))))
        ''titleBar.activeBackground'' = JStr ''#1976D2''"
proof -
  let ?w = "example_manager\<lparr>keepInactiveWindowColors := False,
                            themeManager := example_crashed_workspace\<rparr>"
  have hw: "appliedFlag (themeManager ?w) = Some True" "\<not> focused ?w"
    "\<not> keepInactiveWindowColors ?w" "enabled ?w" "enableColors ?w"
    by (simp_all add: example_manager_def example_crashed_workspace_def)
  have "themeManager (startupReconciliation ?w) = removeTheme False True example_crashed_workspace"
    using hw by (simp add: startupReconciliation_def ensureCleanStateOnStartup_def)
  moreover have "hasWorkspace example_crashed_workspace"
    by (simp add: example_crashed_workspace_def)
  ultimately have "globalValue (themeManager (startupReconciliation ?w))
      = globalValue example_crashed_workspace"
    by (simp add: forced_removal_other_scopes)
  then have "obj_get (customizationsAt Global (themeManager (startupReconciliation ?w)))
        ''titleBar.activeBackground'' = JStr ''#1976D2''"
    by (simp add: customizationsAt_def example_crashed_workspace_def obj_get_def)
  then show ?thesis using hw by (simp add: AFFECTED_ELEMENTS_def)
qed

section \<open>Coordination\<close>

lemma handleCoordinationChange_record:
  assumes "coordinationFile m = Some content" and "trim content \<noteq> []"
    and "JSON_parse content = JsonObject d"
  shows "handleCoordinationChange JSON_parse m =
    (if \<not> truthyString (activeWindowId d) \<or> activeWindowId d = Some (windowId m) then m
     else if focused m then m
     else if isStale (lastActivatedAt m) (timestamp d) then m
     else if isWindowActive m \<or> isThemeApplied (themeManager m) then
       (if (case coordinationScope m of None \<Rightarrow> ''global'' | Some sc \<Rightarrow> sc) = ''workspace''
           \<and> \<not> (truthyString (workspaceId d) \<and> workspaceId d = Some (ownWorkspaceId m))
        then m
        else scheduleDeactivation
               (keepInactiveWindowColors m
                \<and> truthyString (workspaceId d) \<and> workspaceId d = Some (ownWorkspaceId m)) m)
     else m)"
  using assms by (auto simp add: handleCoordinationChange_def Let_def)

lemma handleCoordinationChange_blank:
  "coordinationFile m = Some content \<Longrightarrow> trim content = [] \<Longrightarrow>
     handleCoordinationChange JSON_parse m = m"
  by (simp add: handleCoordinationChange_def)

lemma stale_ignored:
  assumes "coordinationFile m = Some content" and "JSON_parse content = JsonObject d"
    and "timestamp d = Some t" and "t \<le> lastActivatedAt m"
  shows "handleCoordinationChange JSON_parse m = m"
proof (cases "trim content = []")
  case True
  with assms(1) show ?thesis by (rule handleCoordinationChange_blank)
next
  case False
  from handleCoordinationChange_record [of m content JSON_parse d] assms False
  show ?thesis by simp
qed

text \<open>
  C2. Stale-claim rejection. Let the coordination file hold a record whose timestamp is
  at most this window's \<^verbatim>\<open>lastActivatedAt\<close>. Then \<^verbatim>\<open>handleCoordinationChange\<close> returns the
  state it was given: activation, theme, title, status bar and everything else are
  unchanged. \<^verbatim>\<open>notifyWindowActive\<close> sets \<^verbatim>\<open>lastActivatedAt\<close> to the time of the claim it
  writes, so a record stamped no later than that claim, and delivered after it, is
  ignored as well.
\<close>

theorem C2_stale_claim_rejected:
  assumes "JSON_parse content = JsonObject d" and "timestamp d = Some t"
  shows "(coordinationFile m = Some content \<and> t \<le> lastActivatedAt m \<longrightarrow>
            handleCoordinationChange JSON_parse m = m)
     \<and> (t \<le> now \<longrightarrow>
            handleCoordinationChange JSON_parse
              ((notifyWindowActive writeJson now m)\<lparr>coordinationFile := Some content\<rparr>)
            = (notifyWindowActive writeJson now m)\<lparr>coordinationFile := Some content\<rparr>)"
proof -
  have "handleCoordinationChange JSON_parse
              ((notifyWindowActive writeJson now m)\<lparr>coordinationFile := Some content\<rparr>)
            = (notifyWindowActive writeJson now m)\<lparr>coordinationFile := Some content\<rparr>"
    if "t \<le> now"
  proof (rule stale_ignored [where content = content and d = d and t = t])
    show "coordinationFile ((notifyWindowActive writeJson now m)\<lparr>coordinationFile := Some content\<rparr>)
            = Some content" by simp
    show "t \<le> lastActivatedAt
            ((notifyWindowActive writeJson now m)\<lparr>coordinationFile := Some content\<rparr>)"
      using that by (simp add: notifyWindowActive_def Let_def)
  qed (rule assms)+
  then show ?thesis using assms by (auto intro: stale_ignored)
qed

theorem C2_witness:
  "example_parse example_claim_text = JsonObject example_claim
   \<and> timestamp example_claim = Some 200
   \<and> coordinationFile (example_manager\<lparr>lastActivatedAt := 300\<rparr>) = Some example_claim_text
   \<and> (200 :: int) \<le> lastActivatedAt (example_manager\<lparr>lastActivatedAt := 300\<rparr>)
   \<and> handleCoordinationChange example_parse (example_manager\<lparr>lastActivatedAt := 300\<rparr>)
       = example_manager\<lparr>lastActivatedAt := 300\<rparr>
   \<and> handleCoordinationChange example_parse
        ((notifyWindowActive (\<lambda>data. fromAscii ''{}'') 250 example_manager)
           \<lparr>coordinationFile := Some example_claim_text\<rparr>)
       = (notifyWindowActive (\<lambda>data. fromAscii ''{}'') 250 example_manager)
           \<lparr>coordinationFile := Some example_claim_text\<rparr>"
proof -
  have a: "coordinationFile (example_manager\<lparr>lastActivatedAt := 300\<rparr>) = Some example_claim_text"
    by (simp add: example_manager_def)
  have b: "timestamp example_claim = Some 200" by (simp add: example_claim_def)
  have c: "(200 :: int) \<le> lastActivatedAt (example_manager\<lparr>lastActivatedAt := 300\<rparr>)" by simp
  note one = C2_stale_claim_rejected [of example_parse example_claim_text example_claim 200
      "example_manager\<lparr>lastActivatedAt := 300\<rparr>", OF example_parse_claim b]
  note two = C2_stale_claim_rejected [of example_parse example_claim_text example_claim 200
      example_manager 250 "\<lambda>data. fromAscii ''{}''", OF example_parse_claim b]
  from one a c have "handleCoordinationChange example_parse (example_manager\<lparr>lastActivatedAt := 300\<rparr>)
       = example_manager\<lparr>lastActivatedAt := 300\<rparr>" by blast
  moreover from two have "handleCoordinationChange example_parse
        ((notifyWindowActive (\<lambda>data. fromAscii ''{}'') 250 example_manager)
           \<lparr>coordinationFile := Some example_claim_text\<rparr>)
       = (notifyWindowActive (\<lambda>data. fromAscii ''{}'') 250 example_manager)
           \<lparr>coordinationFile := Some example_claim_text\<rparr>" by simp
  ultimately show ?thesis using a b c example_parse_claim by simp
qed

text \<open>
  C3. A focused window is never deactivated by a remote claim. While the window is
  focused, \<^verbatim>\<open>handleCoordinationChange\<close> leaves the activation flag, the theme manager and
  the calls made on the title and on the status bar as they were, whatever the
  coordination file holds; and when the file holds a record, of any claimant and any
  timestamp, the whole state is unchanged.
\<close>

theorem C3_focused_never_deactivated:
  assumes "focused m"
  shows "isWindowActive (handleCoordinationChange JSON_parse m) = isWindowActive m
     \<and> themeManager (handleCoordinationChange JSON_parse m) = themeManager m
     \<and> titleCalls (handleCoordinationChange JSON_parse m) = titleCalls m
     \<and> statusBarSetActive (handleCoordinationChange JSON_parse m) = statusBarSetActive m
     \<and> (coordinationFile m = Some content \<and> JSON_parse content = JsonObject d \<longrightarrow>
          handleCoordinationChange JSON_parse m = m)"
  using assms
  by (auto simp add: handleCoordinationChange_def Let_def split: option.splits json_result.splits)

theorem C3_witness:
  "focused (example_manager\<lparr>focused := True\<rparr>)
   \<and> coordinationFile (example_manager\<lparr>focused := True\<rparr>) = Some example_claim_text
   \<and> example_parse example_claim_text = JsonObject example_claim
   \<and> handleCoordinationChange example_parse (example_manager\<lparr>focused := True\<rparr>)
       = example_manager\<lparr>focused := True\<rparr>"
proof -
  have f: "focused (example_manager\<lparr>focused := True\<rparr>)" by simp
  have a: "coordinationFile (example_manager\<lparr>focused := True\<rparr>) = Some example_claim_text"
    by (simp add: example_manager_def)
  from C3_focused_never_deactivated [OF f, of example_parse example_claim_text example_claim]
    a example_parse_claim
  have "handleCoordinationChange example_parse (example_manager\<lparr>focused := True\<rparr>)
       = example_manager\<lparr>focused := True\<rparr>" by blast
  then show ?thesis using f a example_parse_claim by simp
qed

lemma deactivateWindow_effect:
  assumes "isWindowActive m \<or> isThemeApplied (themeManager m)"
  shows "isWindowActive (deactivateWindow p m) = False"
    and "titleCalls (deactivateWindow p m) = titleCalls m @ [TitleSetInactive]"
    and "statusBarSetActive (deactivateWindow p m) = statusBarSetActive m @ [False]"
    and "themeManager (deactivateWindow p m) =
          (if \<not> enableColors m then removeTheme False False (themeManager m)
           else if p \<and> keepInactiveWindowColors m then themeManager m
           else removeTheme True (\<not> keepInactiveWindowColors m) (themeManager m))"
  using assms
  by (auto simp add: deactivateWindow_def clearActiveApplyTimer_def Let_def)

lemma clearDeactivateTimer_fields:
  "isWindowActive (clearDeactivateTimer m) = isWindowActive m"
  "themeManager (clearDeactivateTimer m) = themeManager m"
  "titleCalls (clearDeactivateTimer m) = titleCalls m"
  "statusBarSetActive (clearDeactivateTimer m) = statusBarSetActive m"
  "enableColors (clearDeactivateTimer m) = enableColors m"
  "keepInactiveWindowColors (clearDeactivateTimer m) = keepInactiveWindowColors m"
  by (simp_all add: clearDeactivateTimer_def)

text \<open>
  C4, as amended. Scope filtering and preservation. A record of another claimant, newer
  than this window's last claim, is found while the window is not focused and is active
  or still has its theme applied; the window's own workspace id is not empty.
  (a) If the coordination scope is \<^verbatim>\<open>workspace\<close> and the record's workspace id is not this
  window's, nothing changes.
  (b) Otherwise the window deactivates: the activation flag is cleared, the title and the
  status bar are set inactive. With colours enabled, the theme manager is left as it is
  exactly when the keep-inactive flag is on and the record's workspace id is this
  window's, and \<^verbatim>\<open>removeTheme\<close> runs otherwise (resetting to defaults when the flag is off).
  With colours disabled, \<^verbatim>\<open>removeTheme\<close> always runs, as an ordinary restore.
\<close>

theorem C4_scope_and_preservation:
  assumes onDisk: "coordinationFile m = Some content" "trim content \<noteq> []"
      "JSON_parse content = JsonObject d"
    and claimant: "truthyString (activeWindowId d)" "activeWindowId d \<noteq> Some (windowId m)"
    and unfocused: "\<not> focused m"
    and newer: "timestamp d = Some t" "lastActivatedAt m < t"
    and showing: "isWindowActive m \<or> isThemeApplied (themeManager m)"
    and own: "ownWorkspaceId m \<noteq> []"
  shows "(coordinationScope m = Some ''workspace'' \<and> workspaceId d \<noteq> Some (ownWorkspaceId m)
            \<longrightarrow> handleCoordinationChange JSON_parse m = m)
     \<and> (\<not> (coordinationScope m = Some ''workspace'' \<and> workspaceId d \<noteq> Some (ownWorkspaceId m))
            \<longrightarrow> isWindowActive (handleCoordinationChange JSON_parse m) = False
              \<and> titleCalls (handleCoordinationChange JSON_parse m) = titleCalls m @ [TitleSetInactive]
              \<and> statusBarSetActive (handleCoordinationChange JSON_parse m)
                  = statusBarSetActive m @ [False]
              \<and> themeManager (handleCoordinationChange JSON_parse m) =
                  (if \<not> enableColors m then removeTheme False False (themeManager m)
                   else if keepInactiveWindowColors m \<and> workspaceId d = Some (ownWorkspaceId m)
                   then themeManager m
                   else removeTheme True (\<not> keepInactiveWindowColors m) (themeManager m)))"
proof -
  have same: "(truthyString (workspaceId d) \<and> workspaceId d = Some (ownWorkspaceId m))
                = (workspaceId d = Some (ownWorkspaceId m))"
    using own by auto
  have scope: "((case coordinationScope m of None \<Rightarrow> ''global'' | Some sc \<Rightarrow> sc) = ''workspace'')
                = (coordinationScope m = Some ''workspace'')"
    by (simp split: option.splits)
  have showing': "isWindowActive (clearDeactivateTimer m)
                  \<or> isThemeApplied (themeManager (clearDeactivateTimer m))"
    using showing by (simp add: clearDeactivateTimer_fields)
  note eff = deactivateWindow_effect [OF showing']
  from handleCoordinationChange_record [of m content JSON_parse d] onDisk claimant unfocused
    newer showing
  show ?thesis
    by (simp add: same scope scheduleDeactivation_def eff clearDeactivateTimer_fields)
qed

theorem C4_witness:
  "isWindowActive (handleCoordinationChange example_parse example_manager) = False
   \<and> themeManager (handleCoordinationChange example_parse example_manager) = example_edited
   \<and> titleCalls (handleCoordinationChange example_parse example_manager) = [TitleSetInactive]
   \<and> handleCoordinationChange example_parse
        (example_manager\<lparr>ownWorkspaceId := ''workspace-9'', coordinationScope := Some ''workspace''\<rparr>)
      = example_manager\<lparr>ownWorkspaceId := ''workspace-9'', coordinationScope := Some ''workspace''\<rparr>"
proof -
  note one = C4_scope_and_preservation [of example_manager example_claim_text example_parse
      example_claim 200]
  note two = C4_scope_and_preservation [of
      "example_manager\<lparr>ownWorkspaceId := ''workspace-9'', coordinationScope := Some ''workspace''\<rparr>"
      example_claim_text example_parse example_claim 200]
  from one have "isWindowActive (handleCoordinationChange example_parse example_manager) = False
   \<and> themeManager (handleCoordinationChange example_parse example_manager) = example_edited
   \<and> titleCalls (handleCoordinationChange example_parse example_manager) = [TitleSetInactive]"
    by (simp add: example_manager_fields example_claim_fields example_parse_claim
        example_claim_text_not_blank)
  moreover from two have "handleCoordinationChange example_parse
        (example_manager\<lparr>ownWorkspaceId := ''workspace-9'', coordinationScope := Some ''workspace''\<rparr>)
      = example_manager\<lparr>ownWorkspaceId := ''workspace-9'', coordinationScope := Some ''workspace''\<rparr>"
    by (simp add: example_manager_fields example_claim_fields example_parse_claim
        example_claim_text_not_blank)
  ultimately show ?thesis by simp
qed

text \<open>
  Without the condition on colours the property fails: here colours are disabled, the
  keep-inactive flag is on and the claimant shares the workspace, yet the theme is
  removed, and the title-bar foreground the palette had set is gone from the document.
\<close>

theorem C4_counterexample:
  "coordinationFile (example_manager\<lparr>enableColors := False\<rparr>) = Some example_claim_text
   \<and> trim example_claim_text \<noteq> []
   \<and> example_parse example_claim_text = JsonObject example_claim
   \<and> activeWindowId example_claim = Some ''window-2''
   \<and> windowId (example_manager\<lparr>enableColors := False\<rparr>) = ''window-1''
   \<and> \<not> focused (example_manager\<lparr>enableColors := False\<rparr>)
   \<and> timestamp example_claim = Some 200
   \<and> lastActivatedAt (example_manager\<lparr>enableColors := False\<rparr>) = 100
   \<and> isWindowActive (example_manager\<lparr>enableColors := False\<rparr>)
   \<and> isThemeApplied (themeManager (example_manager\<lparr>enableColors := False\<rparr>))
   \<and> coordinationScope (example_manager\<lparr>enableColors := False\<rparr>) = Some ''global''
   \<and> keepInactiveWindowColors (example_manager\<lparr>enableColors := False\<rparr>)
   \<and> workspaceId example_claim = Some (ownWorkspaceId (example_manager\<lparr>enableColors := False\<rparr>))
   \<and> isThemeApplied (themeManager
         (handleCoordinationChange example_parse (example_manager\<lparr>enableColors := False\<rparr>))) = False
   \<and> globalValue (themeManager
         (handleCoordinationChange example_parse (example_manager\<lparr>enableColors := False\<rparr>)))
       = Some [(''editor.background'', JStr ''#000000''),
               (''titleBar.activeBackground'', JStr ''#123456'')]
   \<and> globalValue (themeManager (example_manager\<lparr>enableColors := False\<rparr>))
       = Some [(''editor.background'', JStr ''#000000''),
               (''titleBar.activeBackground'', JStr ''#123456''),
               (''titleBar.activeForeground'', JStr ''#FFFFFF'')]"
proof -
  have r: "themeManager (handleCoordinationChange example_parse (example_manager\<lparr>enableColors := False\<rparr>))
       = removeTheme False False example_edited"
    by (simp add: handleCoordinationChange_def example_manager_fields example_claim_fields
        example_parse_claim example_claim_text_not_blank scheduleDeactivation_def
        deactivateWindow_def clearDeactivateTimer_def clearActiveApplyTimer_def Let_def
        example_manager_def)
  have g: "globalValue (removeTheme False False example_edited) =
       Some [(''editor.background'', JStr ''#000000''),
               (''titleBar.activeBackground'', JStr ''#123456'')]"
    using example_restored
    by (simp add: removeTheme_def restoreOriginalCustomizations_def Let_def
        clearStoredCustomizations_def workbench_update_def getConfigurationTarget_def
        getWorkspaceConfigurationTarget_def example_edited_def)
  have a: "isThemeApplied (removeTheme False False example_edited) = False"
    by (simp add: removeTheme_def Let_def example_edited_def)
  show ?thesis
    unfolding r g a
    by (simp add: example_manager_fields example_claim_fields example_parse_claim
        example_claim_text_not_blank)
      (simp add: example_edited_def example_manager_def)
qed

lemma trim_blank_iff: "trim content = [] \<longleftrightarrow> (\<forall>c \<in> set content. isWhiteSpace c)"
proof -
  have "dropWhile isWhiteSpace (rev (dropWhile isWhiteSpace content)) = []
          \<longleftrightarrow> dropWhile isWhiteSpace content = []"
  proof (cases "dropWhile isWhiteSpace content = []")
    case True
    show ?thesis unfolding True by simp
  next
    case False
    then have notWs: "\<not> isWhiteSpace (hd (dropWhile isWhiteSpace content))"
      by (rule hd_dropWhile)
    have "hd (dropWhile isWhiteSpace content) \<in> set (rev (dropWhile isWhiteSpace content))"
      using False by simp
    with notWs have "\<not> (\<forall>c \<in> set (rev (dropWhile isWhiteSpace content)). isWhiteSpace c)"
      by blast
    then have "dropWhile isWhiteSpace (rev (dropWhile isWhiteSpace content)) \<noteq> []"
      by (simp only: dropWhile_eq_Nil_conv not_False_eq_True)
    with False show ?thesis by blast
  qed
  then show ?thesis by (simp add: trim_def dropWhile_eq_Nil_conv)
qed

text \<open>
  C9, as amended. Corrupt-claim self-healing. When the coordination file holds text that
  is not blank and does not parse, \<^verbatim>\<open>handleCoordinationChange\<close> removes the file and changes
  nothing else. When the text is blank, which is when \<^verbatim>\<open>trim()\<close> leaves nothing of it,
  that is, when it is empty or made of white space and line terminators only (the
  no-break space and the byte-order mark among them), the parser is not called: nothing
  changes, and the file stays. Either way the call returns a state; no failure leaves it.
\<close>

theorem C9_corrupt_claim_self_healing:
  assumes "coordinationFile m = Some content" and "JSON_parse content = SyntaxError"
  shows "handleCoordinationChange JSON_parse m =
           (if trim content = [] then m else m\<lparr>coordinationFile := None\<rparr>)
     \<and> (trim content = [] \<longleftrightarrow> (\<forall>c \<in> set content. isWhiteSpace c))"
  using assms by (simp add: handleCoordinationChange_def trim_blank_iff)

theorem C9_witness:
  "coordinationFile (example_manager\<lparr>coordinationFile := Some (fromAscii ''{'')\<rparr>)
     = Some (fromAscii ''{'')
   \<and> example_parse (fromAscii ''{'') = SyntaxError
   \<and> handleCoordinationChange example_parse
        (example_manager\<lparr>coordinationFile := Some (fromAscii ''{'')\<rparr>)
       = example_manager\<lparr>coordinationFile := None\<rparr>
   \<and> example_parse [0x00A0, 0xFEFF, 0x2028, 0x0020] = SyntaxError
   \<and> handleCoordinationChange example_parse
        (example_manager\<lparr>coordinationFile := Some [0x00A0, 0xFEFF, 0x2028, 0x0020]\<rparr>)
       = example_manager\<lparr>coordinationFile := Some [0x00A0, 0xFEFF, 0x2028, 0x0020]\<rparr>"
proof -
  have a: "coordinationFile (example_manager\<lparr>coordinationFile := Some (fromAscii ''{'')\<rparr>)
             = Some (fromAscii ''{'')"
    by simp
  have b: "example_parse (fromAscii ''{'') = SyntaxError"
    by (simp add: example_parse_def example_claim_text_def fromAscii_def)
  have c: "coordinationFile
             (example_manager\<lparr>coordinationFile := Some [0x00A0, 0xFEFF, 0x2028, 0x0020]\<rparr>)
             = Some [0x00A0, 0xFEFF, 0x2028, 0x0020]"
    by simp
  have d: "example_parse [0x00A0, 0xFEFF, 0x2028, 0x0020] = SyntaxError"
    by (simp add: example_parse_def example_claim_text_def fromAscii_def)
  from C9_corrupt_claim_self_healing
      [of "example_manager\<lparr>coordinationFile := Some (fromAscii ''{'')\<rparr>" "fromAscii ''{''"
        example_parse] a b
  have one: "handleCoordinationChange example_parse
        (example_manager\<lparr>coordinationFile := Some (fromAscii ''{'')\<rparr>)
       = example_manager\<lparr>coordinationFile := None\<rparr>"
    by (simp add: trim_def isWhiteSpace_def fromAscii_def)
  from C9_corrupt_claim_self_healing
      [of "example_manager\<lparr>coordinationFile := Some [0x00A0, 0xFEFF, 0x2028, 0x0020]\<rparr>"
        "[0x00A0, 0xFEFF, 0x2028, 0x0020]" example_parse] c d
  have two: "handleCoordinationChange example_parse
        (example_manager\<lparr>coordinationFile := Some [0x00A0, 0xFEFF, 0x2028, 0x0020]\<rparr>)
       = example_manager\<lparr>coordinationFile := Some [0x00A0, 0xFEFF, 0x2028, 0x0020]\<rparr>"
    by (simp add: trim_def isWhiteSpace_def)
  from a b d one two show ?thesis by simp
qed

text \<open>
  Without the condition on blank text the property fails: the empty text does not parse,
  and an empty file is still there afterwards.
\<close>

theorem C9_counterexample:
  "coordinationFile (example_manager\<lparr>coordinationFile := Some []\<rparr>) = Some []
   \<and> example_parse [] = SyntaxError
   \<and> coordinationFile
        (handleCoordinationChange example_parse (example_manager\<lparr>coordinationFile := Some []\<rparr>))
       = Some []"
  by (simp add: handleCoordinationChange_def trim_def example_parse_def example_claim_text_def
      fromAscii_def)

section \<open>Properties of the apply delay\<close>

lemma Math_round_bounds:
  assumes "0 \<le> x" and "x \<le> 500"
  shows "\<exists>n::nat. n \<le> 500 \<and> Math_round x = of_nat n"
proof -
  let ?i = "\<lfloor>x + 1 / 2\<rfloor>"
  have lo: "0 \<le> ?i" using assms(1) by (simp add: zero_le_floor)
  have "x + 1 / 2 < 501" using assms(2) by simp
  then have "?i < 501" by (simp add: floor_less_iff)
  then have hi: "nat ?i \<le> 500" using lo by linarith
  have "Math_round x = of_nat (nat ?i)" using lo by (simp add: Math_round_def)
  with hi show ?thesis by blast
qed

lemma validateDelay_500_bounds: "\<exists>n::nat. n \<le> 500 \<and> validateDelay v 500 = of_nat n"
proof (cases v)
  case JsNotANumberType
  then show ?thesis by (simp add: exI [of _ 0])
next
  case (JsNumber num)
  show ?thesis
  proof (cases num)
    case NaN
    with JsNumber show ?thesis by (simp add: exI [of _ 0])
  next
    case PosInfinity
    with JsNumber show ?thesis by (simp add: exI [of _ 500])
  next
    case NegInfinity
    with JsNumber show ?thesis by (simp add: exI [of _ 0])
  next
    case (Finite x)
    consider "x < 0" | "x > 500" | "0 \<le> x" "x \<le> 500" by linarith
    then show ?thesis
    proof cases
      case 1
      with JsNumber Finite show ?thesis by (simp add: exI [of _ 0])
    next
      case 2
      with JsNumber Finite show ?thesis by (simp add: exI [of _ 500])
    next
      case 3
      with JsNumber Finite Math_round_bounds [of x] show ?thesis by simp
    qed
  qed
qed

lemma Math_round_nearest: "\<bar>Math_round x - x\<bar> \<le> 1 / 2"
proof -
  have "of_int \<lfloor>x + 1 / 2\<rfloor> \<le> x + 1 / 2" by (rule of_int_floor_le)
  moreover have "x + 1 / 2 < of_int \<lfloor>x + 1 / 2\<rfloor> + 1"
    using floor_correct [of "x + 1 / 2"] by simp
  ultimately show ?thesis unfolding Math_round_def by linarith
qed

text \<open>
  C10. The apply delay that \<^verbatim>\<open>getConfiguration()\<close> returns is a natural number no greater
  than 500, whatever the setting holds, and it is this function of the setting: 100 when
  the setting is absent (the default, which passes through unchanged); 0 when it is not a
  number, or is NaN; 0 when it is negative; 500 when it is above 500; and any other number
  rounded to the nearest integer (\<^verbatim>\<open>Math.round\<close>, at most one half away, a tie going up).
\<close>

theorem C10_apply_delay_bounded:
  "(\<exists>n::nat. n \<le> 500 \<and> getConfiguration_activeApplyDelay settings = of_nat n)
   \<and> getConfiguration_activeApplyDelay settings =
       (case settings ''activeApplyDelay'' of
          None \<Rightarrow> 100
        | Some JsNotANumberType \<Rightarrow> 0
        | Some (JsNumber NaN) \<Rightarrow> 0
        | Some (JsNumber NegInfinity) \<Rightarrow> 0
        | Some (JsNumber PosInfinity) \<Rightarrow> 500
        | Some (JsNumber (Finite v)) \<Rightarrow>
            if v < 0 then 0 else if 500 < v then 500 else of_int \<lfloor>v + 1 / 2\<rfloor>)
   \<and> getConfiguration_activeApplyDelay (settings(''activeApplyDelay'' \<mapsto> JsNotANumberType)) = 0
   \<and> getConfiguration_activeApplyDelay (settings(''activeApplyDelay'' \<mapsto> JsNumber NaN)) = 0
   \<and> getConfiguration_activeApplyDelay (settings(''activeApplyDelay'' \<mapsto> JsNumber (Finite x))) =
        (if x < 0 then 0 else if 500 < x then 500 else of_int \<lfloor>x + 1 / 2\<rfloor>)
   \<and> validateDelay JsNotANumberType 500 = 0
   \<and> validateDelay (JsNumber NaN) 500 = 0
   \<and> validateDelay (JsNumber NegInfinity) 500 = 0
   \<and> validateDelay (JsNumber PosInfinity) 500 = 500
   \<and> validateDelay (JsNumber (Finite x)) 500 =
        (if x < 0 then 0 else if 500 < x then 500 else of_int \<lfloor>x + 1 / 2\<rfloor>)
   \<and> \<bar>of_int \<lfloor>x + 1 / 2\<rfloor> - x\<bar> \<le> 1 / 2
   \<and> \<bar>Math_round x - x\<bar> \<le> 1 / 2"
proof -
  have bound: "\<exists>n::nat. n \<le> 500 \<and> getConfiguration_activeApplyDelay settings = of_nat n"
    unfolding getConfiguration_activeApplyDelay_def by (rule validateDelay_500_bounds)
  have "\<lfloor>(100::rat) + 1 / 2\<rfloor> = 100" by (rule floor_unique) simp_all
  then have default: "Math_round 100 = 100" by (simp add: Math_round_def)
  have cases: "getConfiguration_activeApplyDelay settings =
       (case settings ''activeApplyDelay'' of
          None \<Rightarrow> 100
        | Some JsNotANumberType \<Rightarrow> 0
        | Some (JsNumber NaN) \<Rightarrow> 0
        | Some (JsNumber NegInfinity) \<Rightarrow> 0
        | Some (JsNumber PosInfinity) \<Rightarrow> 500
        | Some (JsNumber (Finite v)) \<Rightarrow>
            if v < 0 then 0 else if 500 < v then 500 else of_int \<lfloor>v + 1 / 2\<rfloor>)"
    using default
    by (simp add: getConfiguration_activeApplyDelay_def config_get_def
        split: option.splits js_unknown.splits js_number.splits)
      (simp add: Math_round_def)
  have upd: "getConfiguration_activeApplyDelay (settings(''activeApplyDelay'' \<mapsto> u))
               = validateDelay u 500" for u
    by (simp add: getConfiguration_activeApplyDelay_def config_get_def)
  have fin: "validateDelay (JsNumber (Finite x)) 500 =
        (if x < 0 then 0 else if 500 < x then 500 else of_int \<lfloor>x + 1 / 2\<rfloor>)"
    by (simp add: Math_round_def)
  have near: "\<bar>of_int \<lfloor>x + 1 / 2\<rfloor> - x\<bar> \<le> 1 / 2"
    using Math_round_nearest [of x] by (simp add: Math_round_def)
  show ?thesis
    using bound cases fin near Math_round_nearest [of x] by (simp only: upd validateDelay.simps)
qed


end
